theory Spec2Isabelle
  imports Complex_Main
begin

section \<open>JavaScript values used by the component\<close>

text \<open>
  The component \<^verbatim>\<open>VirtualTable\<close> of \<^verbatim>\<open>src/Table.tsx\<close> is embedded function by
  function. A JavaScript exception is a value of \<open>js_error + 'a\<close>; \<open>null\<close> and
  \<open>undefined\<close> are \<open>None\<close>.
\<close>

datatype js_error = TypeError

text \<open>
  Scroll offsets are JavaScript numbers. Only comparisons are made on them, so a finite
  number is the real it denotes (\<open>-0\<close> and \<open>+0\<close> compare equal, as \<open>Finite 0\<close>),
  next to the two infinities and \<open>NaN\<close>.
\<close>

datatype js_number = Finite real | PosInfinity | NegInfinity | NaN

text \<open>\<^verbatim>\<open>a > b\<close>: false as soon as one side is \<open>NaN\<close>.\<close>

fun js_gt :: "js_number \<Rightarrow> js_number \<Rightarrow> bool" where
  "js_gt (Finite a) (Finite b) = (b < a)"
| "js_gt (Finite a) NegInfinity = True"
| "js_gt PosInfinity (Finite b) = True"
| "js_gt PosInfinity NegInfinity = True"
| "js_gt a b = False"

text \<open>\<^verbatim>\<open>a === b\<close> on numbers: \<open>NaN\<close> equals nothing, itself included.\<close>

fun js_strict_eq :: "js_number \<Rightarrow> js_number \<Rightarrow> bool" where
  "js_strict_eq (Finite a) (Finite b) = (a = b)"
| "js_strict_eq PosInfinity PosInfinity = True"
| "js_strict_eq NegInfinity NegInfinity = True"
| "js_strict_eq a b = False"

text \<open>\<^verbatim>\<open>xs.at(i)\<close>: a negative index counts from the end; out of range is \<open>undefined\<close>.\<close>

definition Array_at :: "'a list \<Rightarrow> int \<Rightarrow> 'a option" where
  "Array_at xs i =
     (let n = int (length xs); k = (if i < 0 then n + i else i)
      in if 0 \<le> k \<and> k < n then Some (xs ! nat k) else None)"

text \<open>\<^verbatim>\<open>xs[i]\<close>: \<open>undefined\<close> out of range, no wrap-around.\<close>

definition Array_get :: "'a list \<Rightarrow> int \<Rightarrow> 'a option" where
  "Array_get xs i = (if 0 \<le> i \<and> i < int (length xs) then Some (xs ! nat i) else None)"

text \<open>\<^verbatim>\<open>v ?? d\<close>.\<close>

definition nullish :: "'a option \<Rightarrow> 'a \<Rightarrow> 'a" where
  "nullish v d = (case v of None \<Rightarrow> d | Some x \<Rightarrow> x)"

text \<open>\<^verbatim>\<open>xs.map(f)\<close> for a callback that may throw: the first exception ends the loop.\<close>

fun Array_map :: "('a \<Rightarrow> js_error + 'b) \<Rightarrow> 'a list \<Rightarrow> js_error + 'b list" where
  "Array_map f [] = Inr []"
| "Array_map f (x # xs) =
     (case f x of
        Inl e \<Rightarrow> Inl e
      | Inr y \<Rightarrow> (case Array_map f xs of Inl e \<Rightarrow> Inl e | Inr ys \<Rightarrow> Inr (y # ys)))"

section \<open>Row source and virtualizer\<close>

record Person =
  firstName :: string
  lastName :: string
  age :: int
  visits :: int
  status :: string
  progress :: int

text \<open>
  \<^verbatim>\<open>const data = Array.from({ length: 10000 }, () => generatePerson())\<close>. The random
  generator is a parameter: \<open>generatePerson k\<close> is the record its \<open>k\<close>-th call returns.
\<close>

definition data :: "(nat \<Rightarrow> Person) \<Rightarrow> Person list" where
  "data generatePerson = map generatePerson [0..<10000]"

record Cell =
  cell_id :: string
  cell_content :: string

record Row =
  row_id :: string
  getVisibleCells :: "Cell list"

text \<open>
  Modelled from the spec: the table library's core row model (\<^verbatim>\<open>table.getRowModel()\<close>) is
  not part of the repository. The spec's Row Source is an ordered sequence of records and a
  Row is one record of it, identified by its position; \<open>toRow\<close> is the library's
  construction of a row from a position and a record.
\<close>

definition getRowModel :: "(nat \<Rightarrow> Person \<Rightarrow> Row) \<Rightarrow> Person list \<Rightarrow> Row list" where
  "getRowModel toRow d = map (\<lambda>(k, p). toRow k p) (enumerate 0 d)"

text \<open>The options \<^verbatim>\<open>estimateSize: () => 35\<close> and \<^verbatim>\<open>overscan: 5\<close> of \<^verbatim>\<open>useVirtualizer\<close>.\<close>

definition estimateSize :: int where
  "estimateSize = 35"

definition overscan :: int where
  "overscan = 5"

record VirtualItem =
  index :: int
  start :: int
  end_offset :: int

text \<open>
  What the component reads of \<^verbatim>\<open>rowVirtualizer\<close>: the item list and the total size. The
  virtualizer is an external library; its two results are inputs of the component.
\<close>

record Virtualizer =
  getVirtualItems :: "VirtualItem list"
  getTotalSize :: int

text \<open>
  Modelled from the spec: the virtualizer's fixed-height model,
  \<open>totalTrackHeight = rowCount \<times> estimatedRowHeight\<close>.
\<close>

definition totalTrackHeight :: "int \<Rightarrow> int \<Rightarrow> int" where
  "totalTrackHeight rowCount estimatedRowHeight = rowCount * estimatedRowHeight"

text \<open>
  Modelled from the spec: the virtualizer's contract on a window. Every item has the
  estimated height, each item starts where the previous one ends, and every index lies in
  \<open>[0, rowCount)\<close>.
\<close>

definition fixed_height :: "VirtualItem list \<Rightarrow> bool" where
  "fixed_height items = list_all (\<lambda>v. end_offset v = start v + estimateSize) items"

fun contiguous :: "VirtualItem list \<Rightarrow> bool" where
  "contiguous [] = True"
| "contiguous [v] = True"
| "contiguous (v # w # vs) = (start w = end_offset v \<and> contiguous (w # vs))"

definition indices_in_range :: "int \<Rightarrow> VirtualItem list \<Rightarrow> bool" where
  "indices_in_range rowCount items = list_all (\<lambda>v. 0 \<le> index v \<and> index v < rowCount) items"

section \<open>Padding reconciler\<close>

definition paddingTop :: "Virtualizer \<Rightarrow> int" where
  "paddingTop rowVirtualizer =
     (if length (getVirtualItems rowVirtualizer) > 0
      then nullish (map_option start (Array_at (getVirtualItems rowVirtualizer) 0)) 0
      else 0)"

definition paddingBottom :: "Virtualizer \<Rightarrow> int" where
  "paddingBottom rowVirtualizer =
     (if length (getVirtualItems rowVirtualizer) > 0
      then getTotalSize rowVirtualizer
             - nullish (map_option end_offset (Array_at (getVirtualItems rowVirtualizer) (- 1))) 0
      else 0)"

section \<open>The rendered table body\<close>

record td =
  td_key :: string
  td_children :: string

text \<open>
  A \<^verbatim>\<open><tr>\<close> of the body: a spacer holding one cell of the given pixel height, or a data
  row with its key, its style height and its cells.
\<close>

datatype tr = SpacerRow int | DataRow string int "td list"

fun tr_height :: "tr \<Rightarrow> int" where
  "tr_height (SpacerRow h) = h"
| "tr_height (DataRow k h cells) = h"

fun is_spacer :: "tr \<Rightarrow> bool" where
  "is_spacer (SpacerRow h) = True"
| "is_spacer (DataRow k h cells) = False"

text \<open>
  The three children of \<^verbatim>\<open><tbody>\<close>, in order. \<^verbatim>\<open>cond && <tr/>\<close> is \<open>None\<close> when the
  condition is false: React renders nothing for it.
\<close>

record tbody =
  leading :: "tr option"
  body_rows :: "tr list"
  trailing :: "tr option"

definition tbody_children :: "tbody \<Rightarrow> tr list" where
  "tbody_children b =
     (case leading b of None \<Rightarrow> [] | Some s \<Rightarrow> [s]) @ body_rows b
       @ (case trailing b of None \<Rightarrow> [] | Some s \<Rightarrow> [s])"

definition layout_height :: "tbody \<Rightarrow> int" where
  "layout_height b = sum_list (map tr_height (tbody_children b))"

text \<open>
  The callback of \<^verbatim>\<open>getVirtualItems().map\<close>. \<^verbatim>\<open>rows[virtualRow.index]\<close> is \<open>undefined\<close> out
  of range, and \<^verbatim>\<open>row.id\<close> then throws a TypeError.
\<close>

definition render_row :: "Row list \<Rightarrow> VirtualItem \<Rightarrow> js_error + tr" where
  "render_row rows virtualRow =
     (case Array_get rows (index virtualRow) of
        None \<Rightarrow> Inl TypeError
      | Some row \<Rightarrow>
          Inr (DataRow (row_id row) 35
                 (map (\<lambda>cell. \<lparr>td_key = cell_id cell, td_children = cell_content cell\<rparr>)
                    (getVisibleCells row))))"

definition VirtualTable_tbody :: "Row list \<Rightarrow> Virtualizer \<Rightarrow> js_error + tbody" where
  "VirtualTable_tbody rows rowVirtualizer =
     (case Array_map (render_row rows) (getVirtualItems rowVirtualizer) of
        Inl e \<Rightarrow> Inl e
      | Inr trs \<Rightarrow>
          Inr \<lparr>leading =
                 (if paddingTop rowVirtualizer > 0
                  then Some (SpacerRow (paddingTop rowVirtualizer)) else None),
               body_rows = trs,
               trailing =
                 (if paddingBottom rowVirtualizer > 0
                  then Some (SpacerRow (paddingBottom rowVirtualizer)) else None)\<rparr>)"

section \<open>Scroll state and the scroll handler\<close>

record ScrollState =
  scrollX :: js_number
  scrollY :: js_number
  lastScrollXTime :: int
  lastScrollYTime :: int

definition initialScrollState :: ScrollState where
  "initialScrollState =
     \<lparr>scrollX = Finite 0, scrollY = Finite 0, lastScrollXTime = 0, lastScrollYTime = 0\<rparr>"

text \<open>What the handler reads of the event: the offsets of its \<^verbatim>\<open>scrollEventElement\<close>.\<close>

record ScrollEvent =
  scrollLeft :: js_number
  scrollTop :: js_number

text \<open>
  The guard of both branches of the handler, on the offset it has just read:
  \<^verbatim>\<open>(v > 0 && v === 0) || (v === 0 && v > 0)\<close>.
\<close>

definition scroll_guard :: "js_number \<Rightarrow> bool" where
  "scroll_guard v =
     ((js_gt v (Finite 0) \<and> js_strict_eq v (Finite 0))
      \<or> (js_strict_eq v (Finite 0) \<and> js_gt v (Finite 0)))"

text \<open>
  \<^verbatim>\<open>events.scroll\<close>. The result is the updater it passes to \<^verbatim>\<open>setScrollState\<close>, or
  \<open>None\<close> when it falls through without a call; \<open>now\<close> is the reading of
  \<^verbatim>\<open>Date.now()\<close>.
\<close>

definition scroll :: "ScrollEvent \<Rightarrow> int \<Rightarrow> (ScrollState \<Rightarrow> ScrollState) option" where
  "scroll e now =
     (let x = scrollLeft e; y = scrollTop e
      in if scroll_guard x
         then Some (\<lambda>prev. prev\<lparr>scrollX := x, lastScrollXTime := now\<rparr>)
         else if scroll_guard y
         then Some (\<lambda>prev. prev\<lparr>scrollY := y, lastScrollYTime := now\<rparr>)
         else None)"

text \<open>The Scroll State after one scroll event, and after a sequence of them.\<close>

definition on_scroll :: "ScrollState \<Rightarrow> ScrollEvent \<times> int \<Rightarrow> ScrollState" where
  "on_scroll s ev = (case scroll (fst ev) (snd ev) of None \<Rightarrow> s | Some update \<Rightarrow> update s)"

definition on_scrolls :: "ScrollState \<Rightarrow> (ScrollEvent \<times> int) list \<Rightarrow> ScrollState" where
  "on_scrolls s evs = foldl on_scroll s evs"

section \<open>Overlay lifecycle\<close>

datatype HTMLDivElement = Div string

record OverlayScrollbars =
  target :: HTMLDivElement
  viewport :: HTMLDivElement
  destroyed :: bool

datatype os_call = Initialize HTMLDivElement HTMLDivElement | Destroy

text \<open>
  The state behind \<^verbatim>\<open>[initialize, osInstance]\<close>: the instance handle, if any, and the calls
  made on the overlay library so far.
\<close>

record OverlayHook =
  instanceRef :: "OverlayScrollbars option"
  calls :: "os_call list"

definition useOverlayScrollbars :: OverlayHook where
  "useOverlayScrollbars = \<lparr>instanceRef = None, calls = []\<rparr>"

text \<open>
  Modelled from the spec: the overlay library's \<^verbatim>\<open>initialize\<close> is not part of the
  repository. It establishes the overlay against the host element with the viewport element
  as the scrolling region and yields an instance handle; re-invocation with the same
  elements is a no-op, changing either element re-initializes.
\<close>

definition initialize :: "HTMLDivElement \<Rightarrow> HTMLDivElement \<Rightarrow> OverlayHook \<Rightarrow> OverlayHook" where
  "initialize t v h =
     (let h' = h\<lparr>calls := calls h @ [Initialize t v]\<rparr>;
          fresh = \<lparr>target = t, viewport = v, destroyed = False\<rparr>
      in case instanceRef h of
           None \<Rightarrow> h'\<lparr>instanceRef := Some fresh\<rparr>
         | Some os \<Rightarrow>
             if \<not> destroyed os \<and> target os = t \<and> viewport os = v then h'
             else h'\<lparr>instanceRef := Some fresh\<rparr>)"

definition osInstance :: "OverlayHook \<Rightarrow> OverlayScrollbars option" where
  "osInstance h = instanceRef h"

text \<open>Modelled from the spec: the handle's \<^verbatim>\<open>destroy()\<close> releases the overlay.\<close>

definition destroy :: "OverlayScrollbars \<Rightarrow> OverlayScrollbars" where
  "destroy os = os\<lparr>destroyed := True\<rparr>"

definition live :: "OverlayHook \<Rightarrow> bool" where
  "live h = (case instanceRef h of None \<Rightarrow> False | Some os \<Rightarrow> \<not> destroyed os)"

text \<open>
  The body of the effect: \<^verbatim>\<open>if (scrollRef.current && parentRef.current) initialize(...)\<close>.
  An element is truthy, \<open>null\<close> is not.
\<close>

definition useEffect_body ::
  "HTMLDivElement option \<Rightarrow> HTMLDivElement option \<Rightarrow> OverlayHook \<Rightarrow> js_error + OverlayHook" where
  "useEffect_body scrollRef parentRef h =
     (case scrollRef of
        None \<Rightarrow> Inr h
      | Some t \<Rightarrow> (case parentRef of None \<Rightarrow> Inr h | Some v \<Rightarrow> Inr (initialize t v h)))"

text \<open>
  The cleanup of the effect: \<^verbatim>\<open>osInstance()?.destroy()\<close>. The optional chain yields
  \<open>undefined\<close> on a \<open>null\<close> handle instead of throwing.
\<close>

definition useEffect_cleanup :: "OverlayHook \<Rightarrow> js_error + OverlayHook" where
  "useEffect_cleanup h =
     (case osInstance h of
        None \<Rightarrow> Inr h
      | Some os \<Rightarrow> Inr (h\<lparr>instanceRef := Some (destroy os), calls := calls h @ [Destroy]\<rparr>))"

text \<open>One mount followed by its unmount.\<close>

definition mount_unmount ::
  "HTMLDivElement option \<Rightarrow> HTMLDivElement option \<Rightarrow> OverlayHook \<Rightarrow> js_error + OverlayHook" where
  "mount_unmount scrollRef parentRef h =
     (case useEffect_body scrollRef parentRef h of
        Inl e \<Rightarrow> Inl e
      | Inr m \<Rightarrow> useEffect_cleanup m)"

section \<open>Example inputs\<close>

text \<open>
  A table of three rows scrolled to its end (rows 1 and 2 in the window), and the widget's
  own table before its first layout: ten thousand rows and no items.
\<close>

abbreviation example_rows :: "Row list" where
  "example_rows \<equiv>
     [\<lparr>row_id = ''0'', getVisibleCells = [\<lparr>cell_id = ''0_firstName'', cell_content = ''Ada''\<rparr>]\<rparr>,
      \<lparr>row_id = ''1'', getVisibleCells = [\<lparr>cell_id = ''1_firstName'', cell_content = ''Bob''\<rparr>]\<rparr>,
      \<lparr>row_id = ''2'', getVisibleCells = [\<lparr>cell_id = ''2_firstName'', cell_content = ''Cyd''\<rparr>]\<rparr>]"

abbreviation example_window :: Virtualizer where
  "example_window \<equiv>
     \<lparr>getVirtualItems = [\<lparr>index = 1, start = 35, end_offset = 70\<rparr>,
                         \<lparr>index = 2, start = 70, end_offset = 105\<rparr>],
      getTotalSize = 105\<rparr>"

abbreviation example_tbody :: tbody where
  "example_tbody \<equiv>
     \<lparr>leading = Some (SpacerRow 35),
      body_rows = [DataRow ''1'' 35 [\<lparr>td_key = ''1_firstName'', td_children = ''Bob''\<rparr>],
                   DataRow ''2'' 35 [\<lparr>td_key = ''2_firstName'', td_children = ''Cyd''\<rparr>]],
      trailing = None\<rparr>"

abbreviation first_render_rows :: "Row list" where
  "first_render_rows \<equiv>
     getRowModel (\<lambda>k p. \<lparr>row_id = firstName p, getVisibleCells = []\<rparr>)
       (data (\<lambda>k. \<lparr>firstName = ''Ada'', lastName = ''Lovelace'', age = 36, visits = 100,
                    status = ''single'', progress = 50\<rparr>))"

abbreviation first_render_window :: Virtualizer where
  "first_render_window \<equiv>
     \<lparr>getVirtualItems = [],
      getTotalSize = totalTrackHeight (int (length first_render_rows)) estimateSize\<rparr>"

abbreviation empty_tbody :: tbody where
  "empty_tbody \<equiv> \<lparr>leading = None, body_rows = [], trailing = None\<rparr>"

abbreviation scroll_host :: HTMLDivElement where
  "scroll_host \<equiv> Div ''scrollRef''"

abbreviation scroll_viewport :: HTMLDivElement where
  "scroll_viewport \<equiv> Div ''parentRef''"

section \<open>Arrays\<close>

lemma Array_at_first: "xs \<noteq> [] \<Longrightarrow> Array_at xs 0 = Some (hd xs)"
  by (cases xs) (simp_all add: Array_at_def)

lemma Array_at_last: "xs \<noteq> [] \<Longrightarrow> Array_at xs (- 1) = Some (last xs)"
  by (simp add: Array_at_def Let_def last_conv_nth nat_diff_distrib')

lemma Array_map_length: "Array_map f xs = Inr ys \<Longrightarrow> length ys = length xs"
  by (induction xs arbitrary: ys) (auto split: sum.splits)

lemma Array_map_total:
  "list_all (\<lambda>x. \<exists>y. f x = Inr y) xs \<Longrightarrow> \<exists>ys. Array_map f xs = Inr ys"
  by (induction xs) auto

section \<open>Windows of the virtualizer\<close>

text \<open>In a contiguous window of rows of the estimated height, the last row ends at the
  first row's start plus the height of all rows.\<close>

lemma last_end_offset:
  "items \<noteq> [] \<Longrightarrow> fixed_height items \<Longrightarrow> contiguous items \<Longrightarrow>
   end_offset (last items) = start (hd items) + int (length items) * estimateSize"
proof (induction items rule: contiguous.induct)
  case 1
  then show ?case by simp
next
  case (2 v)
  then show ?case by (simp add: fixed_height_def)
next
  case (3 v w vs)
  from "3.prems" have fh: "fixed_height (w # vs)"
    and ev: "end_offset v = start v + estimateSize"
    by (simp_all add: fixed_height_def)
  from "3.prems" have ct: "contiguous (w # vs)" and sw: "start w = end_offset v"
    by simp_all
  have "end_offset (last (w # vs)) = start w + int (length (w # vs)) * estimateSize"
    using "3.IH" fh ct by simp
  then show ?case using sw ev by (simp add: algebra_simps)
qed

lemma indices_in_range_zero: "indices_in_range 0 items \<Longrightarrow> items = []"
  by (cases items) (auto simp: indices_in_range_def)

section \<open>Paddings\<close>

lemma paddingTop_nonempty:
  "getVirtualItems rv \<noteq> [] \<Longrightarrow> paddingTop rv = start (hd (getVirtualItems rv))"
  by (simp add: paddingTop_def Array_at_first nullish_def)

lemma paddingBottom_nonempty:
  "getVirtualItems rv \<noteq> [] \<Longrightarrow>
   paddingBottom rv = getTotalSize rv - end_offset (last (getVirtualItems rv))"
  by (simp add: paddingBottom_def Array_at_last nullish_def)

lemma padding_empty:
  "getVirtualItems rv = [] \<Longrightarrow> paddingTop rv = 0 \<and> paddingBottom rv = 0"
  by (simp add: paddingTop_def paddingBottom_def)

section \<open>The body\<close>

lemma Array_map_render_row:
  "Array_map (render_row rows) items = Inr trs \<Longrightarrow>
   list_all (\<lambda>r. tr_height r = 35 \<and> \<not> is_spacer r) trs"
  by (induction items arbitrary: trs)
     (auto simp: render_row_def split: sum.splits option.splits)

lemma sum_list_heights:
  "list_all (\<lambda>r. tr_height r = 35 \<and> \<not> is_spacer r) trs \<Longrightarrow>
   sum_list (map tr_height trs) = int (length trs) * 35"
  by (induction trs) simp_all

lemma tbody_body_rows:
  "VirtualTable_tbody rows rv = Inr b \<Longrightarrow>
   Array_map (render_row rows) (getVirtualItems rv) = Inr (body_rows b)"
  by (auto simp: VirtualTable_tbody_def split: sum.splits)

lemma tbody_leading:
  "VirtualTable_tbody rows rv = Inr b \<Longrightarrow>
   leading b = (if paddingTop rv > 0 then Some (SpacerRow (paddingTop rv)) else None)"
  by (auto simp: VirtualTable_tbody_def split: sum.splits)

lemma tbody_trailing:
  "VirtualTable_tbody rows rv = Inr b \<Longrightarrow>
   trailing b = (if paddingBottom rv > 0 then Some (SpacerRow (paddingBottom rv)) else None)"
  by (auto simp: VirtualTable_tbody_def split: sum.splits)

lemma layout_height_eq:
  assumes rd: "VirtualTable_tbody rows rv = Inr b"
    and "0 \<le> paddingTop rv" and "0 \<le> paddingBottom rv"
  shows "layout_height b
           = paddingTop rv + int (length (body_rows b)) * 35 + paddingBottom rv"
proof -
  have "sum_list (map tr_height (body_rows b)) = int (length (body_rows b)) * 35"
    using Array_map_render_row [OF tbody_body_rows [OF rd]] by (rule sum_list_heights)
  then show ?thesis
    using assms(2,3)
    by (simp add: layout_height_def tbody_children_def tbody_leading [OF rd]
        tbody_trailing [OF rd])
qed

lemma empty_window_body:
  "getVirtualItems rv = [] \<Longrightarrow> VirtualTable_tbody rows rv = Inr empty_tbody"
  by (simp add: VirtualTable_tbody_def padding_empty)

lemma example_render: "VirtualTable_tbody example_rows example_window = Inr example_tbody"
  by (simp add: VirtualTable_tbody_def render_row_def Array_get_def paddingTop_def
      paddingBottom_def Array_at_def nullish_def)

section \<open>The scroll handler\<close>

lemma scroll_guard_false: "\<not> scroll_guard v"
  by (cases v) (simp_all add: scroll_guard_def)

lemma scroll_None: "scroll e now = None"
  by (simp add: scroll_def Let_def scroll_guard_false)

lemma on_scroll_id: "on_scroll s ev = s"
  by (simp add: on_scroll_def scroll_None)

lemma on_scrolls_id: "on_scrolls s evs = s"
  by (induction evs arbitrary: s) (simp_all add: on_scrolls_def on_scroll_id)

section \<open>The overlay\<close>

lemma cleanup_cases:
  "useEffect_cleanup m =
     (case instanceRef m of
        None \<Rightarrow> Inr m
      | Some os \<Rightarrow>
          Inr (m\<lparr>instanceRef := Some (os\<lparr>destroyed := True\<rparr>), calls := calls m @ [Destroy]\<rparr>))"
  by (simp add: useEffect_cleanup_def osInstance_def destroy_def split: option.splits)

section \<open>Claims on the padding reconciler and the body\<close>

text \<open>
  C1 (as amended). For every window of the virtualizer that is non-empty, or empty over a
  track of height 0, with rows of the estimated height 35 and each item starting where the
  previous one ends: paddingTop + (number of rendered rows) * 35 + paddingBottom equals the
  total track height; and when neither padding is negative, the heights of the rendered
  children of the body add up to it.
\<close>

theorem track_height_preserved:
  assumes win: "getVirtualItems rv \<noteq> [] \<or> getTotalSize rv = 0"
    and fh: "fixed_height (getVirtualItems rv)"
    and ct: "contiguous (getVirtualItems rv)"
    and rd: "VirtualTable_tbody rows rv = Inr b"
  shows "paddingTop rv + int (length (body_rows b)) * 35 + paddingBottom rv = getTotalSize rv
         \<and> (0 \<le> paddingTop rv \<and> 0 \<le> paddingBottom rv \<longrightarrow> layout_height b = getTotalSize rv)"
proof -
  have len: "length (body_rows b) = length (getVirtualItems rv)"
    using tbody_body_rows [OF rd] by (rule Array_map_length)
  have total: "paddingTop rv + int (length (body_rows b)) * 35 + paddingBottom rv
                 = getTotalSize rv"
  proof (cases "getVirtualItems rv = []")
    case True
    with win have "getTotalSize rv = 0" by simp
    with True len show ?thesis by (simp add: padding_empty)
  next
    case False
    have "end_offset (last (getVirtualItems rv))
            = start (hd (getVirtualItems rv)) + int (length (getVirtualItems rv)) * 35"
      using last_end_offset [OF False fh ct] by (simp add: estimateSize_def)
    then show ?thesis
      using len by (simp add: paddingTop_nonempty [OF False] paddingBottom_nonempty [OF False])
  qed
  then show ?thesis
    using layout_height_eq [OF rd] by simp
qed

theorem track_height_preserved_witness:
  "getVirtualItems example_window \<noteq> []
   \<and> fixed_height (getVirtualItems example_window)
   \<and> contiguous (getVirtualItems example_window)
   \<and> VirtualTable_tbody example_rows example_window = Inr example_tbody
   \<and> paddingTop example_window + int (length (body_rows example_tbody)) * 35
        + paddingBottom example_window = getTotalSize example_window
   \<and> layout_height example_tbody = getTotalSize example_window"
proof -
  have ne: "getVirtualItems example_window \<noteq> []"
    by simp
  then have w: "getVirtualItems example_window \<noteq> [] \<or> getTotalSize example_window = 0"
    by (rule disjI1)
  have f: "fixed_height (getVirtualItems example_window)"
    by (simp add: fixed_height_def estimateSize_def)
  have c: "contiguous (getVirtualItems example_window)"
    by simp
  have p: "0 \<le> paddingTop example_window \<and> 0 \<le> paddingBottom example_window"
    by (simp add: paddingTop_def paddingBottom_def Array_at_def nullish_def)
  show ?thesis
    using ne f c p example_render track_height_preserved [OF w f c example_render]
    by blast
qed

text \<open>
  C1 as stated fails on the empty window of a non-empty table, which the virtualizer
  returns before the scroll element is laid out: with ten thousand rows the track is
  350000 pixels high, both paddings are 0 and no row is rendered.
\<close>

theorem track_height_empty_window_counterexample:
  "fixed_height (getVirtualItems first_render_window)
   \<and> contiguous (getVirtualItems first_render_window)
   \<and> VirtualTable_tbody first_render_rows first_render_window = Inr empty_tbody
   \<and> getTotalSize first_render_window = 350000
   \<and> paddingTop first_render_window + int (length (body_rows empty_tbody)) * 35
        + paddingBottom first_render_window = 0
   \<and> paddingTop first_render_window + int (length (body_rows empty_tbody)) * 35
        + paddingBottom first_render_window \<noteq> getTotalSize first_render_window"
  by (simp add: fixed_height_def VirtualTable_tbody_def paddingTop_def paddingBottom_def
      totalTrackHeight_def estimateSize_def getRowModel_def data_def)

text \<open>
  C4. For every window: if it is non-empty, paddingTop is the start offset of its first
  item and paddingBottom is the total track height minus the end offset of its last item;
  if it is empty, both are 0.
\<close>

theorem padding_values:
  "(getVirtualItems rv \<noteq> [] \<longrightarrow>
      paddingTop rv = start (hd (getVirtualItems rv))
      \<and> paddingBottom rv = getTotalSize rv - end_offset (last (getVirtualItems rv)))
   \<and> (getVirtualItems rv = [] \<longrightarrow> paddingTop rv = 0 \<and> paddingBottom rv = 0)"
  by (simp add: paddingTop_nonempty paddingBottom_nonempty padding_empty)

theorem padding_values_witness:
  "getVirtualItems example_window \<noteq> []
   \<and> paddingTop example_window = 35
   \<and> paddingBottom example_window = 0
   \<and> getVirtualItems first_render_window = []
   \<and> paddingTop first_render_window = 0
   \<and> paddingBottom first_render_window = 0"
  using padding_values [of example_window] padding_values [of first_render_window]
  by simp

text \<open>
  C7. A spacer row is rendered before the data rows if and only if paddingTop > 0, and
  after them if and only if paddingBottom > 0; a rendered spacer has the padding as its
  height, so no spacer of height 0 (or less) is among the children of the body.
\<close>

theorem spacer_iff_positive:
  assumes rd: "VirtualTable_tbody rows rv = Inr b"
  shows "(leading b \<noteq> None \<longleftrightarrow> 0 < paddingTop rv)
         \<and> (trailing b \<noteq> None \<longleftrightarrow> 0 < paddingBottom rv)
         \<and> (0 < paddingTop rv \<longrightarrow> leading b = Some (SpacerRow (paddingTop rv)))
         \<and> (0 < paddingBottom rv \<longrightarrow> trailing b = Some (SpacerRow (paddingBottom rv)))
         \<and> (\<forall>r \<in> set (tbody_children b). is_spacer r \<longrightarrow> 0 < tr_height r)"
proof -
  have no_spacer: "\<forall>r \<in> set (body_rows b). \<not> is_spacer r"
    using Array_map_render_row [OF tbody_body_rows [OF rd]] by (simp add: list_all_iff)
  show ?thesis
    using no_spacer
    by (auto simp: tbody_leading [OF rd] tbody_trailing [OF rd] tbody_children_def
        split: if_splits)
qed

theorem spacer_iff_positive_witness:
  "VirtualTable_tbody example_rows example_window = Inr example_tbody
   \<and> 0 < paddingTop example_window \<and> leading example_tbody = Some (SpacerRow 35)
   \<and> \<not> 0 < paddingBottom example_window \<and> trailing example_tbody = None
   \<and> list_all (\<lambda>r. \<not> is_spacer r \<or> 0 < tr_height r) (tbody_children example_tbody)"
  using spacer_iff_positive [OF example_render] example_render
  by (simp add: paddingTop_def paddingBottom_def Array_at_def nullish_def tbody_children_def)

text \<open>
  C8. If the table has no rows, the window of the virtualizer (whose indices lie in
  \<open>[0, rowCount)\<close>) is empty, paddingTop and paddingBottom are 0, and the body is rendered
  without spacer and without data row.
\<close>

theorem empty_table_renders_nothing:
  assumes cnt: "length rows = 0"
    and rng: "indices_in_range (int (length rows)) (getVirtualItems rv)"
  shows "getVirtualItems rv = [] \<and> paddingTop rv = 0 \<and> paddingBottom rv = 0
         \<and> VirtualTable_tbody rows rv = Inr empty_tbody
         \<and> tbody_children empty_tbody = []"
proof -
  have e: "getVirtualItems rv = []"
    using cnt rng by (simp add: indices_in_range_zero)
  then show ?thesis
    by (simp add: padding_empty empty_window_body tbody_children_def)
qed

theorem empty_table_renders_nothing_witness:
  "length ([] :: Row list) = 0
   \<and> indices_in_range (int (length ([] :: Row list)))
        (getVirtualItems \<lparr>getVirtualItems = [], getTotalSize = 0\<rparr>)
   \<and> paddingTop \<lparr>getVirtualItems = [], getTotalSize = 0\<rparr> = 0
   \<and> paddingBottom \<lparr>getVirtualItems = [], getTotalSize = 0\<rparr> = 0
   \<and> VirtualTable_tbody [] \<lparr>getVirtualItems = [], getTotalSize = 0\<rparr> = Inr empty_tbody
   \<and> tbody_children empty_tbody = []"
proof -
  have c: "length ([] :: Row list) = 0"
    by simp
  have r: "indices_in_range (int (length ([] :: Row list)))
             (getVirtualItems \<lparr>getVirtualItems = [], getTotalSize = 0\<rparr>)"
    by (simp add: indices_in_range_def)
  show ?thesis
    using c r empty_table_renders_nothing [OF c r] by simp
qed

text \<open>
  C10. When every index of the window lies in \<open>[0, rows.length)\<close>, the lookup
  \<^verbatim>\<open>rows[virtualRow.index]\<close> yields a row for every virtual item, the callback of the render
  loop returns a row element for it, and the body is rendered without an exception.
\<close>

theorem row_lookup_defined:
  assumes rng: "indices_in_range (int (length rows)) (getVirtualItems rv)"
  shows "(\<forall>v \<in> set (getVirtualItems rv).
            nat (index v) < length rows
            \<and> Array_get rows (index v) = Some (rows ! nat (index v))
            \<and> (\<exists>r. render_row rows v = Inr r))
         \<and> (\<exists>b. VirtualTable_tbody rows rv = Inr b)"
proof -
  have each: "\<forall>v \<in> set (getVirtualItems rv).
      nat (index v) < length rows
      \<and> Array_get rows (index v) = Some (rows ! nat (index v))
      \<and> (\<exists>r. render_row rows v = Inr r)"
    using rng by (auto simp: indices_in_range_def list_all_iff Array_get_def render_row_def)
  then have "list_all (\<lambda>v. \<exists>r. render_row rows v = Inr r) (getVirtualItems rv)"
    by (simp add: list_all_iff)
  then obtain trs where "Array_map (render_row rows) (getVirtualItems rv) = Inr trs"
    using Array_map_total by blast
  then have "\<exists>b. VirtualTable_tbody rows rv = Inr b"
    by (simp add: VirtualTable_tbody_def)
  with each show ?thesis by blast
qed

theorem row_lookup_defined_witness:
  "indices_in_range (int (length example_rows)) (getVirtualItems example_window)
   \<and> list_all (\<lambda>v. Array_get example_rows (index v) = Some (example_rows ! nat (index v)))
        (getVirtualItems example_window)
   \<and> (\<exists>b. VirtualTable_tbody example_rows example_window = Inr b)"
proof -
  have r: "indices_in_range (int (length example_rows)) (getVirtualItems example_window)"
    by (simp add: indices_in_range_def)
  show ?thesis
    using r row_lookup_defined [OF r] by (simp add: list_all_iff)
qed

section \<open>Claims on the scroll handler\<close>

text \<open>
  C2. A scroll event delivered to the handler should update the Scroll State with the
  offsets read from the event and a capture timestamp. The code does not: after the event
  with scrollLeft 120 and scrollTop 40 at time 1700000000000, the initial state is
  unchanged, scrollX is not 120 and lastScrollXTime is not the timestamp.
\<close>

theorem scroll_event_not_recorded:
  "on_scroll initialScrollState
       (\<lparr>scrollLeft = Finite 120, scrollTop = Finite 40\<rparr>, 1700000000000)
     = initialScrollState
   \<and> scrollX (on_scroll initialScrollState
         (\<lparr>scrollLeft = Finite 120, scrollTop = Finite 40\<rparr>, 1700000000000)) \<noteq> Finite 120
   \<and> scrollY (on_scroll initialScrollState
         (\<lparr>scrollLeft = Finite 120, scrollTop = Finite 40\<rparr>, 1700000000000)) \<noteq> Finite 40
   \<and> lastScrollXTime (on_scroll initialScrollState
         (\<lparr>scrollLeft = Finite 120, scrollTop = Finite 40\<rparr>, 1700000000000)) \<noteq> 1700000000000"
  by (simp add: on_scroll_def scroll_def scroll_guard_def initialScrollState_def)

text \<open>
  C3. For every number \<open>v\<close> the condition \<^verbatim>\<open>(v > 0 && v === 0) || (v === 0 && v > 0)\<close> is
  false, so the handler never calls \<^verbatim>\<open>setScrollState\<close>, and after every sequence of scroll
  events the Scroll State is the initial one, with all four fields 0.
\<close>

theorem scroll_state_stays_initial:
  "\<not> scroll_guard v \<and> scroll e now = None
   \<and> on_scrolls initialScrollState evs = initialScrollState
   \<and> on_scrolls initialScrollState evs
       = \<lparr>scrollX = Finite 0, scrollY = Finite 0, lastScrollXTime = 0, lastScrollYTime = 0\<rparr>"
  by (simp add: scroll_guard_false scroll_None on_scrolls_id initialScrollState_def)

section \<open>Claims on the overlay lifecycle\<close>

text \<open>
  C5. When the host or the viewport element reference is \<open>null\<close> as the effect runs, the
  effect returns without an exception and leaves the overlay state as it was (no call of
  \<^verbatim>\<open>initialize\<close>); whenever the effect makes a call, both references are set and the call
  is \<^verbatim>\<open>initialize\<close> on these two elements.
\<close>

theorem attach_guarded:
  "(scrollRef = None \<or> parentRef = None \<longrightarrow> useEffect_body scrollRef parentRef h = Inr h)
   \<and> (\<exists>m. useEffect_body scrollRef parentRef h = Inr m
        \<and> (calls m \<noteq> calls h \<longrightarrow>
             (\<exists>t v. scrollRef = Some t \<and> parentRef = Some v
                \<and> calls m = calls h @ [Initialize t v])))"
  by (cases scrollRef; cases parentRef)
     (auto simp: useEffect_body_def initialize_def Let_def split: option.splits)

theorem attach_guarded_witness:
  "useEffect_body None (Some scroll_viewport) useOverlayScrollbars = Inr useOverlayScrollbars
   \<and> useEffect_body (Some scroll_host) None useOverlayScrollbars = Inr useOverlayScrollbars
   \<and> useEffect_body None None useOverlayScrollbars = Inr useOverlayScrollbars
   \<and> useEffect_body (Some scroll_host) (Some scroll_viewport) useOverlayScrollbars
       = Inr \<lparr>instanceRef =
                Some \<lparr>target = scroll_host, viewport = scroll_viewport, destroyed = False\<rparr>,
              calls = [Initialize scroll_host scroll_viewport]\<rparr>"
  using attach_guarded [of None "Some scroll_viewport" useOverlayScrollbars]
    attach_guarded [of "Some scroll_host" None useOverlayScrollbars]
    attach_guarded [of None None useOverlayScrollbars]
    attach_guarded [of "Some scroll_host" "Some scroll_viewport" useOverlayScrollbars]
  by (simp add: useEffect_body_def initialize_def useOverlayScrollbars_def)

text \<open>
  C6. In every mount/unmount cycle that starts without a live overlay instance, neither the
  effect nor its cleanup throws; an instance is live after the effect exactly when both
  element references were set, and the cleanup then calls \<^verbatim>\<open>destroy()\<close> exactly once; when
  there is no instance handle, the cleanup changes nothing; no live instance is left after
  the cleanup.
\<close>

theorem detach_exactly_once:
  assumes "\<not> live h"
  shows "\<exists>m u. useEffect_body scrollRef parentRef h = Inr m
           \<and> useEffect_cleanup m = Inr u
           \<and> mount_unmount scrollRef parentRef h = Inr u
           \<and> (live m \<longleftrightarrow> scrollRef \<noteq> None \<and> parentRef \<noteq> None)
           \<and> (live m \<longrightarrow> calls u = calls m @ [Destroy]
                 \<and> count_list (calls u) Destroy = count_list (calls h) Destroy + 1)
           \<and> (instanceRef m = None \<longrightarrow> u = m)
           \<and> \<not> live u"
  using assms
  by (cases scrollRef; cases parentRef; cases "instanceRef h")
     (auto simp: useEffect_body_def mount_unmount_def cleanup_cases initialize_def Let_def
        live_def split: option.splits)

theorem detach_exactly_once_witness:
  "\<not> live useOverlayScrollbars
   \<and> mount_unmount (Some scroll_host) (Some scroll_viewport) useOverlayScrollbars
       = Inr \<lparr>instanceRef =
                Some \<lparr>target = scroll_host, viewport = scroll_viewport, destroyed = True\<rparr>,
              calls = [Initialize scroll_host scroll_viewport, Destroy]\<rparr>
   \<and> mount_unmount None (Some scroll_viewport) useOverlayScrollbars
       = Inr useOverlayScrollbars"
proof -
  have fresh: "\<not> live useOverlayScrollbars"
    by (simp add: live_def useOverlayScrollbars_def)
  show ?thesis
    using fresh
      detach_exactly_once [OF fresh, of "Some scroll_host" "Some scroll_viewport"]
      detach_exactly_once [OF fresh, of None "Some scroll_viewport"]
    by (simp add: mount_unmount_def useEffect_body_def cleanup_cases initialize_def
        useOverlayScrollbars_def)
qed

section \<open>Claim on the configured track height\<close>

text \<open>
  C9. With the widget's parameters (a data set of 10000 generated records, one row per
  record, estimated row height 35, overscan 5) and the fixed-height model
  \<open>totalTrackHeight = rowCount \<times> estimatedRowHeight\<close>, the total track height is 350000
  pixels.
\<close>

theorem total_track_height_configured:
  "length (data generatePerson) = 10000
   \<and> length (getRowModel toRow (data generatePerson)) = 10000
   \<and> estimateSize = 35 \<and> overscan = 5
   \<and> totalTrackHeight (int (length (getRowModel toRow (data generatePerson)))) estimateSize
       = 350000"
  by (simp add: data_def getRowModel_def estimateSize_def overscan_def totalTrackHeight_def)

end
